theory Spec2Isabelle
  imports Complex_Main
begin

section \<open>Python values and exceptions\<close>

text \<open>
  The configuration validators receive arbitrary Python objects. The model keeps the
  classes the validators distinguish: \<open>bool\<close>, \<open>int\<close>, \<open>float\<close> (a finite float is
  an exact rational; only its comparison with zero is used), \<open>str\<close> (ASCII text, one
  \<open>char\<close> per character) and everything else (\<open>None\<close>, lists, dicts).
\<close>

datatype pyobj =
    PyBool bool
  | PyInt int
  | PyFloat rat
  | PyStr string
  | PyOther

text \<open>
  Exceptions. \<open>Invalid\<close> is \<open>vol.Invalid\<close>; its argument is the message template
  (the formatted offending value is left out).
\<close>

datatype exn =
    Invalid string
  | ValueError
  | OverflowError
  | TypeError
  | CouldNotParseTelegram
  | ConversionError
  | ExternalError string

section \<open>Configuration validators (config\_validation.py)\<close>

subsection \<open>Built-ins of the Python runtime used by the validators\<close>

text \<open>
  \<open>str.strip()\<close>: the ASCII whitespace of a Python string is \<open>\t \n \v \f \r\<close>
  (9 to 13), the separators 28 to 31 and the blank 32.
\<close>

definition py_isspace :: "char \<Rightarrow> bool" where
  "py_isspace c = ((9 \<le> (of_char c :: nat) \<and> (of_char c :: nat) \<le> 13)
                  \<or> (28 \<le> (of_char c :: nat) \<and> (of_char c :: nat) \<le> 32))"

definition py_strip :: "string \<Rightarrow> string" where
  "py_strip s = rev (dropWhile py_isspace (rev (dropWhile py_isspace s)))"

text \<open>\<open>str.lower()\<close> on ASCII text: \<open>A\<close> to \<open>Z\<close> (65 to 90) move up by 32.\<close>

definition py_lower_char :: "char \<Rightarrow> char" where
  "py_lower_char c =
     (if 65 \<le> (of_char c :: nat) \<and> (of_char c :: nat) \<le> 90
      then char_of ((of_char c :: nat) + 32) else c)"

definition py_lower :: "string \<Rightarrow> string" where
  "py_lower s = map py_lower_char s"

text \<open>\<open>str.split(sep)\<close> for a one-character separator: never the empty list.\<close>

fun py_split :: "char \<Rightarrow> string \<Rightarrow> string list" where
  "py_split sep [] = [[]]"
| "py_split sep (c # cs) =
     (if c = sep then [] # py_split sep cs
      else (case py_split sep cs of
              [] \<Rightarrow> [[c]]
            | w # ws \<Rightarrow> (c # w) # ws))"

text \<open>
  \<open>int(str)\<close> in base 10 on ASCII text: whitespace around, an optional sign, then
  decimal digits in which single underscores may stand between two digits. \<open>None\<close>
  is \<open>ValueError\<close>. The whitespace of \<open>int\<close> is narrower than that of \<open>str.strip\<close>:
  9 to 13 and the blank, not the separators 28 to 31. An interpreter with a limit on
  the number of digits (\<open>sys.get_int_max_str_digits()\<close>: 4300 by default where it
  exists, otherwise 0 or at least 640; 0 for no limit) raises \<open>ValueError\<close> beyond
  it; the limit is a parameter.
\<close>

definition is_ascii :: "string \<Rightarrow> bool" where
  "is_ascii s = list_all (\<lambda>c. (of_char c :: nat) < 128) s"

definition py_int_isspace :: "char \<Rightarrow> bool" where
  "py_int_isspace c = ((9 \<le> (of_char c :: nat) \<and> (of_char c :: nat) \<le> 13)
                      \<or> (of_char c :: nat) = 32)"

definition py_int_strip :: "string \<Rightarrow> string" where
  "py_int_strip s = rev (dropWhile py_int_isspace (rev (dropWhile py_int_isspace s)))"

definition is_digit :: "char \<Rightarrow> bool" where
  "is_digit c = (48 \<le> (of_char c :: nat) \<and> (of_char c :: nat) \<le> 57)"

definition digit_val :: "char \<Rightarrow> int" where
  "digit_val c = int (of_char c :: nat) - 48"

text \<open>
  \<open>py_digits acc after_digit cs\<close> reads the digit part: \<open>after_digit\<close> says that the
  character before was a digit (an underscore is legal only there, and a digit must
  follow it; the text must end on a digit).
\<close>

fun py_digits :: "int \<Rightarrow> bool \<Rightarrow> string \<Rightarrow> int option" where
  "py_digits acc after_digit [] = (if after_digit then Some acc else None)"
| "py_digits acc after_digit (c # cs) =
     (if is_digit c then py_digits (10 * acc + digit_val c) True cs
      else if c = CHR ''_'' \<and> after_digit then
        (case cs of
           [] \<Rightarrow> None
         | d # ds \<Rightarrow> if is_digit d then py_digits acc False cs else None)
      else None)"

definition py_int :: "nat \<Rightarrow> string \<Rightarrow> int option" where
  "py_int max_str_digits s =
     (case py_int_strip s of
        [] \<Rightarrow> None
      | c # cs \<Rightarrow>
          if 0 < max_str_digits \<and> max_str_digits < length (filter is_digit (c # cs)) then None
          else if c = CHR ''-'' then map_option uminus (py_digits 0 False cs)
          else if c = CHR ''+'' then py_digits 0 False cs
          else py_digits 0 False (c # cs))"

text \<open>
  \<open>float(str)\<close> followed by \<open>timedelta(seconds=...)\<close> is floating-point arithmetic of the
  Python runtime. It is a parameter of the model: a function from the text of the
  seconds field to what the pair of calls does with it.
\<close>

datatype float_field =
    FloatValueError
  | FloatMicros int
  | FloatInf
  | FloatNan

text \<open>
  \<^item> \<open>FloatValueError\<close>: \<open>float\<close> raises \<open>ValueError\<close>;
  \<^item> \<open>FloatMicros u\<close>: a finite float, which \<open>timedelta\<close> counts as \<open>u\<close> microseconds;
  \<^item> \<open>FloatInf\<close>, \<open>FloatNan\<close>: \<open>float\<close> returns an infinity or a NaN, on which
    \<open>timedelta\<close> raises \<open>OverflowError\<close> and \<open>ValueError\<close>.
\<close>

text \<open>
  A \<open>timedelta\<close> is its number of microseconds. The constructor and the
  multiplication raise \<open>OverflowError\<close> when the normalised number of days leaves
  \<open>-999999999 .. 999999999\<close>.
\<close>

definition us_per_day :: int where
  "us_per_day = 86400000000"

definition timedelta_range :: "int \<Rightarrow> exn + int" where
  "timedelta_range us =
     (if us div us_per_day < - 999999999 \<or> 999999999 < us div us_per_day
      then Inl OverflowError else Inr us)"

definition timedelta :: "int \<Rightarrow> int \<Rightarrow> int \<Rightarrow> exn + int" where
  "timedelta hours minutes second_us =
     timedelta_range (hours * 3600000000 + minutes * 60000000 + second_us)"

subsection \<open>time\_period\_str\<close>

definition TIME_PERIOD_ERROR :: string where
  "TIME_PERIOD_ERROR = ''offset {} should be format HH:MM, HH:MM:SS or HH:MM:SS.F''"

text \<open>The text that is left once the leading \<open>-\<close> or \<open>+\<close> is cut off.\<close>

definition strip_sign :: "string \<Rightarrow> string" where
  "strip_sign s =
     (if take 1 s = ''-'' then drop 1 s
      else if take 1 s = ''+'' then drop 1 s else s)"

text \<open>
  \<open>time_period_str\<close>; the parameters are the floating-point reading of the seconds
  field and the interpreter's limit on the digits of an integer.
\<close>

definition time_period_str ::
  "(string \<Rightarrow> float_field) \<Rightarrow> nat \<Rightarrow> pyobj \<Rightarrow> exn + int" where
  "time_period_str py_float max_str_digits v =
     (case v of
        PyBool b \<Rightarrow> Inl (Invalid ''make sure you wrap time values in quotes'')
      | PyInt n \<Rightarrow> Inl (Invalid ''make sure you wrap time values in quotes'')
      | PyFloat q \<Rightarrow> Inl (Invalid TIME_PERIOD_ERROR)
      | PyOther \<Rightarrow> Inl (Invalid TIME_PERIOD_ERROR)
      | PyStr s \<Rightarrow>
          (let negative_offset = (take 1 s = ''-'');
               parsed = py_split CHR '':'' (strip_sign s)
           in if length parsed \<noteq> 2 \<and> length parsed \<noteq> 3
              then Inl (Invalid TIME_PERIOD_ERROR)
              else
                (case py_int max_str_digits (parsed ! 0) of
                   None \<Rightarrow> Inl (Invalid TIME_PERIOD_ERROR)
                 | Some hour \<Rightarrow>
                (case py_int max_str_digits (parsed ! 1) of
                   None \<Rightarrow> Inl (Invalid TIME_PERIOD_ERROR)
                 | Some minute \<Rightarrow>
                (case (if length parsed = 3 then py_float (parsed ! 2) else FloatMicros 0) of
                   FloatValueError \<Rightarrow> Inl (Invalid TIME_PERIOD_ERROR)
                 | FloatInf \<Rightarrow> Inl OverflowError
                 | FloatNan \<Rightarrow> Inl ValueError
                 | FloatMicros second \<Rightarrow>
                     (case timedelta hour minute second of
                        Inl e \<Rightarrow> Inl e
                      | Inr offset \<Rightarrow>
                          if negative_offset then timedelta_range (offset * (- 1))
                          else Inr offset))))))"

subsection \<open>boolean\<close>

fun boolean :: "pyobj \<Rightarrow> exn + bool" where
  "boolean (PyBool b) = Inr b"
| "boolean (PyStr s) =
     (if py_strip (py_lower s) \<in> set [''1'', ''true'', ''yes'', ''on'', ''enable'']
      then Inr True
      else if py_strip (py_lower s) \<in> set [''0'', ''false'', ''no'', ''off'', ''disable'']
      then Inr False
      else Inl (Invalid ''invalid boolean value''))"
| "boolean (PyInt n) = Inr (n \<noteq> 0)"
| "boolean (PyFloat q) = Inr (q \<noteq> 0)"
| "boolean PyOther = Inl (Invalid ''invalid boolean value'')"


text \<open>
  The value of a digit string, and the strings made of digits only: the \<open>HH\<close> and
  \<open>MM\<close> of the duration format.
\<close>

definition decimal :: "string \<Rightarrow> int" where
  "decimal ds = foldl (\<lambda>a c. 10 * a + digit_val c) 0 ds"

definition all_digits :: "string \<Rightarrow> bool" where
  "all_digits w = (w \<noteq> [] \<and> list_all is_digit w)"

text \<open>
  The duration format as the specification words it: an optional \<open>+\<close> or \<open>-\<close>, then
  \<open>HH:MM\<close> or \<open>HH:MM:SS\<close> or \<open>HH:MM:SS.f\<close>, every part made of digits.
\<close>

definition spec_seconds_form :: "string \<Rightarrow> bool" where
  "spec_seconds_form w =
     (case py_split CHR ''.'' w of
        [a] \<Rightarrow> all_digits a
      | [a, b] \<Rightarrow> all_digits a \<and> all_digits b
      | _ \<Rightarrow> False)"

definition spec_duration_form :: "string \<Rightarrow> bool" where
  "spec_duration_form s =
     (case py_split CHR '':'' (strip_sign s) of
        [h, m] \<Rightarrow> all_digits h \<and> all_digits m
      | [h, m, sec] \<Rightarrow> all_digits h \<and> all_digits m \<and> spec_seconds_form sec
      | _ \<Rightarrow> False)"

text \<open>Two instances of the floating-point parameter, for concrete runs.\<close>

definition no_seconds :: "string \<Rightarrow> float_field" where
  "no_seconds w = FloatValueError"

definition whole_seconds :: "string \<Rightarrow> float_field" where
  "whole_seconds w = (if all_digits w then FloatMicros (decimal w * 1000000) else FloatValueError)"

section \<open>The heat pump datapoint (htdatapoint.py)\<close>

subsection \<open>Values, the bus and the log\<close>

text \<open>
  A parameter value, a last transmitted value and a threshold are Python numbers:
  \<open>bool\<close>, \<open>int\<close> or \<open>float\<close>. The datapoint never looks into them; it applies
  two operations of Python to them and names two literals. The type of the values is
  therefore a parameter \<open>'v\<close>, together with
  \<^item> \<open>py_True\<close> and \<open>py_123\<close>, the values of the literals \<open>True\<close> and \<open>123\<close>;
  \<^item> \<open>py_ne a b\<close>, the result of \<open>a != b\<close>;
  \<^item> \<open>py_delta_ge a b c\<close>, the result of \<open>abs(a - b) >= abs(c)\<close>, or the exception
    it raises. With a float among the operands the difference is a rounded float
    difference (and an \<open>int\<close> too large for a float raises \<open>OverflowError\<close>).
\<close>

record 'v py_arith =
  py_True :: 'v
  py_123 :: 'v
  py_ne :: "'v \<Rightarrow> 'v \<Rightarrow> bool"
  py_delta_ge :: "'v \<Rightarrow> 'v \<Rightarrow> 'v \<Rightarrow> exn + bool"

text \<open>
  The values \<open>bool\<close> and \<open>int\<close>, where Python's arithmetic is exact: \<open>True\<close> is
  \<open>1\<close>, \<open>False\<close> is \<open>0\<close>, and nothing raises.
\<close>

datatype pvalue = VBool bool | VNum int

fun py_num :: "pvalue \<Rightarrow> int" where
  "py_num (VBool b) = (if b then 1 else 0)"
| "py_num (VNum n) = n"

definition int_arith :: "pvalue py_arith" where
  "int_arith =
     \<lparr>py_True = VBool True, py_123 = VNum 123,
      py_ne = (\<lambda>a b. py_num a \<noteq> py_num b),
      py_delta_ge = (\<lambda>a b c. Inr (\<bar>py_num c\<bar> \<le> \<bar>py_num a - py_num b\<bar>))\<rparr>"

text \<open>\<open>value != cached\<close> for a value that is not \<open>None\<close> and a cached value that may be.\<close>

definition differs :: "'v py_arith \<Rightarrow> 'v \<Rightarrow> 'v option \<Rightarrow> bool" where
  "differs A v cached = (case cached of None \<Rightarrow> True | Some c \<Rightarrow> py_ne A v c)"

datatype log_record = LogInfo string | LogWarning string | LogException exn

text \<open>
  The datapoint holds one remote value of the KNX library: a \<open>RemoteValueSwitch\<close> for
  the value type \<open>binary\<close>, a \<open>RemoteValueSensor\<close> otherwise. The datapoint reads and
  writes its \<open>payload\<close>, the encoded value that is cached (\<open>None\<close> until one is known).
\<close>

datatype rv_class = RemoteValueSwitch | RemoteValueSensor

record 'p remote_value =
  rv_class :: rv_class
  group_address :: nat
  payload :: "'p option"

record 'p telegram =
  destination :: nat
  tg_payload :: 'p

text \<open>
  The library's codec of the value type is a parameter: \<open>to_knx\<close> encodes or raises
  on a value the value type cannot encode, \<open>from_knx\<close> decodes, \<open>payload_valid\<close> is
  the library's check of an incoming payload.
\<close>

record ('v, 'p) codec =
  to_knx :: "'v \<Rightarrow> exn + 'p"
  from_knx :: "'p \<Rightarrow> 'v"
  payload_valid :: "'p \<Rightarrow> bool"

record ('v, 'p) ht_data_point =
  param_value :: "'p remote_value"
  writable :: bool
  cyclic_sending :: bool
  send_on_change :: bool
  on_change_of :: "'v option"
  last_sent_value :: "'v option"
  sent :: "('v \<times> bool) list"
  logged :: "log_record list"

text \<open>
  \<open>sent\<close> and \<open>logged\<close> are the effects: the values handed to the bus, each with its
  \<open>response\<close> flag, and the records written to the logger, both in order.
\<close>

subsection \<open>The calls into the KNX library\<close>

text \<open>
  The remote value belongs to the KNX library. Its calls are modelled by what the
  datapoint relies on, with the codec as a parameter. A call that raises leaves the
  remote value as it was.
\<close>

text \<open>The property \<open>param_value.value\<close>: the decoded payload, \<open>None\<close> without one.\<close>

definition rv_value :: "('v, 'p) codec \<Rightarrow> 'p remote_value \<Rightarrow> 'v option" where
  "rv_value C rv = map_option (from_knx C) (payload rv)"

text \<open>The assignment \<open>param_value.payload = param_value.to_knx(value)\<close>.\<close>

definition cache_payload ::
  "('v, 'p) codec \<Rightarrow> 'v \<Rightarrow> ('v, 'p) ht_data_point \<Rightarrow> exn + ('v, 'p) ht_data_point" where
  "cache_payload C v s =
     (case to_knx C v of
        Inl e \<Rightarrow> Inl e
      | Inr p \<Rightarrow> Inr (s\<lparr>param_value := (param_value s)\<lparr>payload := Some p\<rparr>\<rparr>))"

text \<open>
  \<open>await param_value.set(value, response)\<close>: the library encodes the value, caches the
  payload and sends it over the bus. This call is the only way the datapoint
  transmits.
\<close>

definition rv_set ::
  "('v, 'p) codec \<Rightarrow> 'v \<Rightarrow> bool \<Rightarrow> ('v, 'p) ht_data_point \<Rightarrow> exn + ('v, 'p) ht_data_point" where
  "rv_set C v response s =
     (case to_knx C v of
        Inl e \<Rightarrow> Inl e
      | Inr p \<Rightarrow> Inr (s\<lparr>param_value := (param_value s)\<lparr>payload := Some p\<rparr>,
                       sent := sent s @ [(v, response)]\<rparr>))"

text \<open>
  \<open>await param_value.process(telegram)\<close>: false for a telegram of another group
  address, \<open>CouldNotParseTelegram\<close> for a payload the value type does not accept,
  and otherwise the payload of the telegram is cached and the result is true.
\<close>

definition rv_process ::
  "('v, 'p) codec \<Rightarrow> 'p telegram \<Rightarrow> 'p remote_value \<Rightarrow> exn + bool \<times> 'p remote_value" where
  "rv_process C tg rv =
     (if destination tg \<noteq> group_address rv then Inr (False, rv)
      else if \<not> payload_valid C (tg_payload tg) then Inl CouldNotParseTelegram
      else Inr (True, rv\<lparr>payload := Some (tg_payload tg)\<rparr>))"

definition log_dp :: "log_record \<Rightarrow> ('v, 'p) ht_data_point \<Rightarrow> ('v, 'p) ht_data_point" where
  "log_dp r s = s\<lparr>logged := logged s @ [r]\<rparr>"

subsection \<open>The operations of HtDataPoint\<close>

text \<open>
  Every operation returns the exception that leaves it, if any, and the state it
  leaves behind.
\<close>

definition HtDataPoint_init ::
  "rv_class \<Rightarrow> nat \<Rightarrow> bool \<Rightarrow> bool \<Rightarrow> bool \<Rightarrow> 'v option \<Rightarrow> ('v, 'p) ht_data_point" where
  "HtDataPoint_init cls ga w cyc soc oco =
     \<lparr>param_value = \<lparr>rv_class = cls, group_address = ga, payload = None\<rparr>,
      writable = w, cyclic_sending = cyc, send_on_change = soc, on_change_of = oco,
      last_sent_value = None, sent = [], logged = []\<rparr>"

text \<open>
  \<open>broadcast_value\<close>. The second binding of \<open>value\<close> is the source's line marked
  \<open>TODO remove!\<close>: it replaces the value just read by \<open>True\<close> or \<open>123\<close>.
\<close>

definition broadcast_value ::
  "'v py_arith \<Rightarrow> ('v, 'p) codec \<Rightarrow> bool \<Rightarrow> ('v, 'p) ht_data_point
     \<Rightarrow> exn option \<times> ('v, 'p) ht_data_point" where
  "broadcast_value A C response s =
     (if response \<or> cyclic_sending s then
        (let value = rv_value C (param_value s);
             value = Some (if rv_class (param_value s) = RemoteValueSwitch
                           then py_True A else py_123 A)
         in case value of
              None \<Rightarrow> (None, s)
            | Some v \<Rightarrow>
                (case rv_set C v response s of
                   Inl e \<Rightarrow> (Some e, s)
                 | Inr s' \<Rightarrow> (None, s')))
      else (None, s))"

definition process_group_read ::
  "'v py_arith \<Rightarrow> ('v, 'p) codec \<Rightarrow> 'p telegram \<Rightarrow> ('v, 'p) ht_data_point
     \<Rightarrow> exn option \<times> ('v, 'p) ht_data_point" where
  "process_group_read A C tg s =
     broadcast_value A C True (log_dp (LogInfo ''HtDataPoint.process_group_read'') s)"

text \<open>\<open>process_group_write\<close>. Without a cached value \<open>to_knx(None)\<close> cannot encode.\<close>

definition process_group_write ::
  "('v, 'p) codec \<Rightarrow> 'p telegram \<Rightarrow> ('v, 'p) ht_data_point
     \<Rightarrow> exn option \<times> ('v, 'p) ht_data_point" where
  "process_group_write C tg s =
     (let s1 = log_dp (LogInfo ''HtDataPoint.process_group_write'') s
      in case rv_process C tg (param_value s1) of
           Inl e \<Rightarrow> (Some e, s1)
         | Inr (accepted, rv) \<Rightarrow>
             (let s2 = s1\<lparr>param_value := rv\<rparr>
              in if accepted then
                   (if \<not> writable s2 then
                      (None, log_dp (LogWarning
                         ''Attempted to set value for non-writable heat pump parameter'') s2)
                    else
                      (let s3 = log_dp (LogInfo
                         ''HtDataPoint.process_group_write: ht_heatpump.set_param_async'') s2
                       in case rv_value C (param_value s3) of
                            None \<Rightarrow> (Some TypeError, s3)
                          | Some value \<Rightarrow>
                              (case cache_payload C value s3 of
                                 Inl e \<Rightarrow> (Some e, s3)
                               | Inr s4 \<Rightarrow> (None, s4))))
                 else (None, s2)))"

text \<open>
  \<open>set\<close>; the argument is \<open>None\<close> or a value. The two branches that end it:
  \<open>await self.param_value.set(value)\<close> followed by the assignment to
  \<open>last_sent_value\<close>, and the assignment to the payload alone.
\<close>

definition send_and_record ::
  "('v, 'p) codec \<Rightarrow> 'v \<Rightarrow> ('v, 'p) ht_data_point \<Rightarrow> exn option \<times> ('v, 'p) ht_data_point" where
  "send_and_record C v s =
     (case rv_set C v False s of
        Inl e \<Rightarrow> (Some e, s)
      | Inr s' \<Rightarrow> (None, s'\<lparr>last_sent_value := Some v\<rparr>))"

definition cache_only ::
  "('v, 'p) codec \<Rightarrow> 'v \<Rightarrow> ('v, 'p) ht_data_point \<Rightarrow> exn option \<times> ('v, 'p) ht_data_point" where
  "cache_only C v s =
     (case cache_payload C v s of
        Inl e \<Rightarrow> (Some e, s)
      | Inr s' \<Rightarrow> (None, s'))"

definition set_dp ::
  "'v py_arith \<Rightarrow> ('v, 'p) codec \<Rightarrow> 'v option \<Rightarrow> ('v, 'p) ht_data_point
     \<Rightarrow> exn option \<times> ('v, 'p) ht_data_point" where
  "set_dp A C value s =
     (case value of
        None \<Rightarrow> (None, s)
      | Some v \<Rightarrow>
          if rv_class (param_value s) = RemoteValueSwitch
             \<and> differs A v (rv_value C (param_value s)) then
            (if send_on_change s then send_and_record C v s else cache_only C v s)
          else if rv_class (param_value s) = RemoteValueSensor
             \<and> differs A v (rv_value C (param_value s)) then
            (case (if \<not> send_on_change s then Inr False
                   else (case on_change_of s of
                           None \<Rightarrow> Inr True
                         | Some threshold \<Rightarrow>
                             (case last_sent_value s of
                                None \<Rightarrow> Inr True
                              | Some prev \<Rightarrow> py_delta_ge A v prev threshold))) of
               Inl e \<Rightarrow> (Some e, s)
             | Inr reached \<Rightarrow>
                 if reached then send_and_record C v s else cache_only C v s)
          else (None, s))"

text \<open>The four operations that change a datapoint, as one step function.\<close>

datatype ('v, 'p) dp_op =
    OpSet "'v option"
  | OpGroupWrite "'p telegram"
  | OpGroupRead "'p telegram"
  | OpBroadcast bool

fun dp_step ::
  "'v py_arith \<Rightarrow> ('v, 'p) codec \<Rightarrow> ('v, 'p) dp_op \<Rightarrow> ('v, 'p) ht_data_point
     \<Rightarrow> ('v, 'p) ht_data_point" where
  "dp_step A C (OpSet value) s = snd (set_dp A C value s)"
| "dp_step A C (OpGroupWrite tg) s = snd (process_group_write C tg s)"
| "dp_step A C (OpGroupRead tg) s = snd (process_group_read A C tg s)"
| "dp_step A C (OpBroadcast response) s = snd (broadcast_value A C response s)"

text \<open>
  The transmission rule of \<open>set\<close> for a numeric value as the specification words it,
  on integers: no threshold, or nothing transmitted so far, or the absolute delta
  from the last transmitted value is at least the threshold.
\<close>

definition spec_delta_reached :: "(pvalue, 'p) ht_data_point \<Rightarrow> pvalue \<Rightarrow> bool" where
  "spec_delta_reached s v =
     (case on_change_of s of
        None \<Rightarrow> True
      | Some threshold \<Rightarrow>
          (case last_sent_value s of
             None \<Rightarrow> True
           | Some prev \<Rightarrow> \<bar>py_num v - py_num prev\<bar> \<ge> py_num threshold))"

subsection \<open>Concrete datapoints\<close>

text \<open>
  A codec of one byte: the payloads are the values themselves, and the values from 0
  to 255 are the ones it encodes and accepts.
\<close>

definition plain_codec :: "(pvalue, pvalue) codec" where
  "plain_codec =
     \<lparr>to_knx = (\<lambda>v. if 0 \<le> py_num v \<and> py_num v \<le> 255 then Inr v else Inl ConversionError),
      from_knx = (\<lambda>p. p),
      payload_valid = (\<lambda>p. 0 \<le> py_num p \<and> py_num p \<le> 255)\<rparr>"

definition sensor_dp ::
  "bool \<Rightarrow> pvalue option \<Rightarrow> pvalue option \<Rightarrow> pvalue option \<Rightarrow> (pvalue, pvalue) ht_data_point" where
  "sensor_dp w threshold cached prev =
     \<lparr>param_value = \<lparr>rv_class = RemoteValueSensor, group_address = 7, payload = cached\<rparr>,
      writable = w, cyclic_sending = False, send_on_change = True,
      on_change_of = threshold, last_sent_value = prev, sent = [], logged = []\<rparr>"

definition write_to :: "nat \<Rightarrow> int \<Rightarrow> pvalue telegram" where
  "write_to ga n = \<lparr>destination = ga, tg_payload = VNum n\<rparr>"

section \<open>The fault notification (htfaultnotification.py)\<close>

text \<open>
  Points in time and durations are integers (microseconds). \<open>notified\<close> holds the
  messages that the notification has sent over the bus, \<open>fn_logged\<close> the exceptions
  given to the logger.
\<close>

record fault_notification =
  repeat_after :: "int option"
  last_sent_at :: "int option"
  in_error :: bool
  notified :: "string list"
  fn_logged :: "exn list"

text \<open>
  What the outside gives to one tick: the result of the query \<open>in_error_async\<close>, the
  clock read by the comparison, the result of \<open>get_last_fault_async\<close> (index, code,
  timestamp, message), what the bus does with a message that is sent (\<open>bus_raises\<close>),
  and the clock read for \<open>last_sent_at\<close>. A call that is not reached does not read
  its field.
\<close>

record tick_env =
  in_error_async :: "exn + bool"
  now_check :: int
  get_last_fault_async :: "exn + int \<times> int \<times> int \<times> string"
  bus_raises :: "exn option"
  now_sent :: int

definition HtFaultNotification_init :: "int option \<Rightarrow> fault_notification" where
  "HtFaultNotification_init ra =
     \<lparr>repeat_after = ra, last_sent_at = None, in_error = False, notified = [], fn_logged = []\<rparr>"

text \<open>
  The condition \<open>not self.in_error or (self.repeat_after is not None and
  datetime.now() - self.last_sent_at >= self.repeat_after)\<close>, evaluated from the left.
  Subtracting \<open>None\<close> from a datetime raises \<open>TypeError\<close>.
\<close>

definition announce_due :: "fault_notification \<Rightarrow> int \<Rightarrow> exn + bool" where
  "announce_due s now =
     (if \<not> in_error s then Inr True
      else (case repeat_after s of
              None \<Rightarrow> Inr False
            | Some d \<Rightarrow>
                (case last_sent_at s of
                   None \<Rightarrow> Inl TypeError
                 | Some t \<Rightarrow> Inr (now - t \<ge> d))))"

text \<open>
  The coroutine \<open>set(message)\<close> that the notification inherits from the library, when
  it runs: it sends the message over the bus, or raises what the bus raises.
\<close>

definition notification_set ::
  "tick_env \<Rightarrow> string \<Rightarrow> fault_notification \<Rightarrow> exn + fault_notification" where
  "notification_set env msg s =
     (case bus_raises env of
        Some ex \<Rightarrow> Inl ex
      | None \<Rightarrow> Inr (s\<lparr>notified := notified s @ [msg]\<rparr>))"

text \<open>
  The body of the \<open>try\<close>: the exception that leaves it, if any, and the state at that
  point. The source writes \<open>self.set(msg)\<close> without \<open>await\<close>: the call makes a coroutine
  object and drops it, the body of \<open>set\<close> never runs. The statement neither sends
  nor raises, so \<open>notification_set\<close> does not occur here.
\<close>

definition do_try :: "tick_env \<Rightarrow> fault_notification \<Rightarrow> exn option \<times> fault_notification" where
  "do_try env s =
     (case in_error_async env of
        Inl ex \<Rightarrow> (Some ex, s)
      | Inr flag \<Rightarrow>
          if flag then
            (case announce_due s (now_check env) of
               Inl ex \<Rightarrow> (Some ex, s)
             | Inr due \<Rightarrow>
                 if due then
                   (case get_last_fault_async env of
                      Inl ex \<Rightarrow> (Some ex, s)
                    | Inr (idx, err, dt, msg) \<Rightarrow>
                        (None, s\<lparr>in_error := True, last_sent_at := Some (now_sent env)\<rparr>))
                 else (None, s))
          else (None, s\<lparr>in_error := False\<rparr>))"

definition do_tick :: "tick_env \<Rightarrow> fault_notification \<Rightarrow> fault_notification" where
  "do_tick env s =
     (case do_try env s of
        (None, s') \<Rightarrow> s'
      | (Some ex, s') \<Rightarrow> s'\<lparr>fn_logged := fn_logged s' @ [ex]\<rparr>)"

text \<open>A run: the constructor, then one tick for every element of the list.\<close>

fun ticks :: "tick_env list \<Rightarrow> fault_notification \<Rightarrow> fault_notification" where
  "ticks [] s = s"
| "ticks (env # envs) s = ticks envs (do_tick env s)"

text \<open>
  The tick as the specification words it: once the announcement is due and the last
  fault is fetched, the message is emitted, and only then \<open>in_error\<close> and
  \<open>last_sent_at\<close> are set; an exception of the emission is caught like the others.
\<close>

definition spec_do_try ::
  "tick_env \<Rightarrow> fault_notification \<Rightarrow> exn option \<times> fault_notification" where
  "spec_do_try env s =
     (case in_error_async env of
        Inl ex \<Rightarrow> (Some ex, s)
      | Inr flag \<Rightarrow>
          if flag then
            (case announce_due s (now_check env) of
               Inl ex \<Rightarrow> (Some ex, s)
             | Inr due \<Rightarrow>
                 if due then
                   (case get_last_fault_async env of
                      Inl ex \<Rightarrow> (Some ex, s)
                    | Inr (idx, err, dt, msg) \<Rightarrow>
                        (case notification_set env msg s of
                           Inl ex \<Rightarrow> (Some ex, s)
                         | Inr s' \<Rightarrow>
                             (None, s'\<lparr>in_error := True,
                                       last_sent_at := Some (now_sent env)\<rparr>)))
                 else (None, s))
          else (None, s\<lparr>in_error := False\<rparr>))"

definition spec_do_tick :: "tick_env \<Rightarrow> fault_notification \<Rightarrow> fault_notification" where
  "spec_do_tick env s =
     (case spec_do_try env s of
        (None, s') \<Rightarrow> s'
      | (Some ex, s') \<Rightarrow> s'\<lparr>fn_logged := fn_logged s' @ [ex]\<rparr>)"

text \<open>
  Ticks of a heat pump that is in error: one whose calls all succeed, and one on a
  bus that fails.
\<close>

definition fault_tick :: "int \<Rightarrow> string \<Rightarrow> tick_env" where
  "fault_tick now msg =
     \<lparr>in_error_async = Inr True, now_check = now,
      get_last_fault_async = Inr (1, 20, now, msg), bus_raises = None, now_sent = now\<rparr>"


section \<open>Properties of the datapoint\<close>

subsection \<open>What the library calls and the logger leave unchanged\<close>

lemma rv_set_Inr:
  "rv_set C v r s = Inr s' \<Longrightarrow>
     sent s' = sent s @ [(v, r)] \<and> last_sent_value s' = last_sent_value s
     \<and> logged s' = logged s"
  by (auto simp: rv_set_def split: sum.splits)

lemma cache_payload_Inr:
  "cache_payload C v s = Inr s' \<Longrightarrow>
     sent s' = sent s \<and> last_sent_value s' = last_sent_value s \<and> logged s' = logged s"
  by (auto simp: cache_payload_def split: sum.splits)

lemma log_dp_simps:
  "sent (log_dp r s) = sent s"
  "last_sent_value (log_dp r s) = last_sent_value s"
  "logged (log_dp r s) = logged s @ [r]"
  "writable (log_dp r s) = writable s"
  "param_value (log_dp r s) = param_value s"
  "cyclic_sending (log_dp r s) = cyclic_sending s"
  by (simp_all add: log_dp_def)

lemma send_and_record_last_sent:
  "last_sent_value (snd (send_and_record C v s)) = last_sent_value s
   \<or> (sent (snd (send_and_record C v s)) = sent s @ [(v, False)]
       \<and> last_sent_value (snd (send_and_record C v s)) = Some v)"
  by (auto simp: send_and_record_def dest: rv_set_Inr split: sum.splits)

lemma cache_only_last_sent:
  "last_sent_value (snd (cache_only C v s)) = last_sent_value s"
  by (auto simp: cache_only_def dest: cache_payload_Inr split: sum.splits)

lemma broadcast_value_last_sent:
  "last_sent_value (snd (broadcast_value A C r s)) = last_sent_value s"
  by (auto simp: broadcast_value_def dest: rv_set_Inr split: sum.splits)

lemma process_group_write_last_sent:
  "last_sent_value (snd (process_group_write C tg s)) = last_sent_value s"
  by (auto simp: process_group_write_def rv_process_def Let_def log_dp_simps
           dest: cache_payload_Inr split: option.splits sum.splits)

lemma set_dp_last_sent:
  "last_sent_value (snd (set_dp A C val s)) = last_sent_value s
   \<or> (\<exists>v. val = Some v \<and> sent (snd (set_dp A C val s)) = sent s @ [(v, False)]
          \<and> last_sent_value (snd (set_dp A C val s)) = Some v)"
proof (cases val)
  case None
  then show ?thesis by (simp add: set_dp_def)
next
  case (Some v)
  show ?thesis
    using send_and_record_last_sent[of C v s] cache_only_last_sent[of C v s]
    by (auto simp: set_dp_def Some split: sum.splits option.splits)
qed

lemma plain_codec_byte:
  "0 \<le> py_num v \<Longrightarrow> py_num v \<le> 255 \<Longrightarrow> to_knx plain_codec v = Inr v"
  "from_knx plain_codec p = p"
  "payload_valid plain_codec p = (0 \<le> py_num p \<and> py_num p \<le> 255)"
  by (simp_all add: plain_codec_def)

lemma int_arith_simps:
  "py_True int_arith = VBool True"
  "py_123 int_arith = VNum 123"
  "py_ne int_arith a b = (py_num a \<noteq> py_num b)"
  "py_delta_ge int_arith a b c = Inr (\<bar>py_num c\<bar> \<le> \<bar>py_num a - py_num b\<bar>)"
  by (simp_all add: int_arith_def)

subsection \<open>broadcast\_value\<close>

text \<open>
  C1. The claim: \<open>broadcast_value(force)\<close> reads the current value of the parameter and
  transmits that value, and does nothing when the value is unset. The code does not:
  a sensor datapoint whose cached value is 21 transmits the stand-in 123, and a
  sensor datapoint without a cached value transmits 123 as well instead of doing
  nothing.
\<close>

theorem broadcast_value_sends_placeholder:
  "rv_value plain_codec (param_value (sensor_dp False None (Some (VNum 21)) None)) = Some (VNum 21)
   \<and> fst (broadcast_value int_arith plain_codec True (sensor_dp False None (Some (VNum 21)) None))
       = None
   \<and> sent (snd (broadcast_value int_arith plain_codec True
                  (sensor_dp False None (Some (VNum 21)) None))) = [(VNum 123, True)]
   \<and> rv_value plain_codec (param_value (sensor_dp False None None None)) = None
   \<and> fst (broadcast_value int_arith plain_codec True (sensor_dp False None None None)) = None
   \<and> sent (snd (broadcast_value int_arith plain_codec True (sensor_dp False None None None)))
       = [(VNum 123, True)]"
  by (simp add: sensor_dp_def plain_codec_byte int_arith_simps rv_value_def broadcast_value_def
        rv_set_def)

subsection \<open>set\<close>

text \<open>
  C2, as stated, fails for a negative threshold: with \<open>on_change_of = -2\<close> and
  \<open>last_sent_value = 10\<close> the delta of \<open>set(11)\<close> is 1, which is at least the
  threshold \<open>-2\<close>, the value 11 can be encoded, and yet nothing is transmitted and
  \<open>last_sent_value\<close> stays 10.
\<close>

theorem set_dp_negative_threshold_counterexample:
  "send_on_change (sensor_dp False (Some (VNum (- 2))) (Some (VNum 10)) (Some (VNum 10)))
   \<and> differs int_arith (VNum 11)
        (rv_value plain_codec
          (param_value (sensor_dp False (Some (VNum (- 2))) (Some (VNum 10)) (Some (VNum 10)))))
   \<and> to_knx plain_codec (VNum 11) = Inr (VNum 11)
   \<and> spec_delta_reached (sensor_dp False (Some (VNum (- 2))) (Some (VNum 10)) (Some (VNum 10)))
        (VNum 11)
   \<and> fst (set_dp int_arith plain_codec (Some (VNum 11))
             (sensor_dp False (Some (VNum (- 2))) (Some (VNum 10)) (Some (VNum 10)))) = None
   \<and> sent (snd (set_dp int_arith plain_codec (Some (VNum 11))
             (sensor_dp False (Some (VNum (- 2))) (Some (VNum 10)) (Some (VNum 10))))) = []
   \<and> last_sent_value (snd (set_dp int_arith plain_codec (Some (VNum 11))
             (sensor_dp False (Some (VNum (- 2))) (Some (VNum 10)) (Some (VNum 10)))))
       = Some (VNum 10)"
  by (simp add: sensor_dp_def plain_codec_byte int_arith_simps differs_def rv_value_def
        spec_delta_reached_def set_dp_def cache_only_def cache_payload_def)

text \<open>
  C2, amended. For a sensor datapoint with send-on-change and a value \<open>v\<close> that differs
  from the cached one:
  \<^item> if the value type encodes \<open>v\<close>, and \<open>on_change_of\<close> is unset, or nothing was
    transmitted before, or Python's \<open>abs(v - last_sent_value) >= abs(on_change_of)\<close>
    is true, \<open>set(v)\<close> transmits \<open>v\<close>, caches its payload and records \<open>v\<close> as
    \<open>last_sent_value\<close>;
  \<^item> if the value type encodes \<open>v\<close> and that comparison is false, \<open>set(v)\<close> only
    caches the payload: nothing is transmitted, \<open>last_sent_value\<close> is kept;
  \<^item> if the value type cannot encode \<open>v\<close>, or the comparison raises, \<open>set(v)\<close> raises
    and leaves the datapoint as it was: nothing transmitted, recorded or cached;
  \<^item> on \<open>bool\<close> and \<open>int\<close> the comparison is exact: the absolute delta is at least
    the absolute value of the threshold.
\<close>

theorem set_dp_sensor_threshold:
  assumes "rv_class (param_value s) = RemoteValueSensor"
    and "send_on_change s"
    and "differs A v (rv_value C (param_value s))"
  shows "(to_knx C v = Inr p
          \<and> (on_change_of s = None \<or> last_sent_value s = None
              \<or> (on_change_of s = Some t \<and> last_sent_value s = Some l
                  \<and> py_delta_ge A v l t = Inr True)) \<longrightarrow>
            set_dp A C (Some v) s =
              (None, s\<lparr>param_value := (param_value s)\<lparr>payload := Some p\<rparr>,
                       sent := sent s @ [(v, False)],
                       last_sent_value := Some v\<rparr>))
       \<and> (to_knx C v = Inr p
          \<and> on_change_of s = Some t \<and> last_sent_value s = Some l
          \<and> py_delta_ge A v l t = Inr False \<longrightarrow>
            set_dp A C (Some v) s =
              (None, s\<lparr>param_value := (param_value s)\<lparr>payload := Some p\<rparr>\<rparr>))
       \<and> (to_knx C v = Inl e
          \<and> (on_change_of s = None \<or> last_sent_value s = None
              \<or> (on_change_of s = Some t \<and> last_sent_value s = Some l
                  \<and> (\<exists>b. py_delta_ge A v l t = Inr b))) \<longrightarrow>
            set_dp A C (Some v) s = (Some e, s))
       \<and> (on_change_of s = Some t \<and> last_sent_value s = Some l
          \<and> py_delta_ge A v l t = Inl e \<longrightarrow>
            set_dp A C (Some v) s = (Some e, s))
       \<and> py_delta_ge int_arith a b c = Inr (\<bar>py_num c\<bar> \<le> \<bar>py_num a - py_num b\<bar>)"
  using assms
  by (auto simp: set_dp_def send_and_record_def cache_only_def rv_set_def cache_payload_def
        int_arith_simps split: option.splits)

text \<open>
  The example of the specification: with \<open>on_change_of = 2\<close> and \<open>last_sent_value = 10\<close>,
  \<open>set(11)\<close> does not transmit, \<open>set(12)\<close> transmits and sets \<open>last_sent_value\<close> to 12;
  and \<open>set(300)\<close> on the codec of one byte raises.
\<close>

theorem set_dp_sensor_threshold_witness:
  "sent (snd (set_dp int_arith plain_codec (Some (VNum 11))
          (sensor_dp False (Some (VNum 2)) (Some (VNum 10)) (Some (VNum 10))))) = []
   \<and> last_sent_value (snd (set_dp int_arith plain_codec (Some (VNum 11))
          (sensor_dp False (Some (VNum 2)) (Some (VNum 10)) (Some (VNum 10))))) = Some (VNum 10)
   \<and> sent (snd (set_dp int_arith plain_codec (Some (VNum 12))
          (sensor_dp False (Some (VNum 2)) (Some (VNum 10)) (Some (VNum 10)))))
       = [(VNum 12, False)]
   \<and> last_sent_value (snd (set_dp int_arith plain_codec (Some (VNum 12))
          (sensor_dp False (Some (VNum 2)) (Some (VNum 10)) (Some (VNum 10))))) = Some (VNum 12)
   \<and> set_dp int_arith plain_codec (Some (VNum 300))
          (sensor_dp False (Some (VNum 2)) (Some (VNum 10)) (Some (VNum 10)))
       = (Some ConversionError, sensor_dp False (Some (VNum 2)) (Some (VNum 10)) (Some (VNum 10)))"
  using set_dp_sensor_threshold[of "sensor_dp False (Some (VNum 2)) (Some (VNum 10)) (Some (VNum 10))"
          int_arith "VNum 11" plain_codec "VNum 11" "VNum 2" "VNum 10" ConversionError "VNum 11" "VNum 10" "VNum 2"]
        set_dp_sensor_threshold[of "sensor_dp False (Some (VNum 2)) (Some (VNum 10)) (Some (VNum 10))"
          int_arith "VNum 12" plain_codec "VNum 12" "VNum 2" "VNum 10" ConversionError "VNum 12" "VNum 10" "VNum 2"]
        set_dp_sensor_threshold[of "sensor_dp False (Some (VNum 2)) (Some (VNum 10)) (Some (VNum 10))"
          int_arith "VNum 300" plain_codec "VNum 300" "VNum 2" "VNum 10" ConversionError "VNum 300" "VNum 10" "VNum 2"]
  by (auto simp: sensor_dp_def plain_codec_def int_arith_simps differs_def rv_value_def)

subsection \<open>The invariant of last\_sent\_value\<close>

text \<open>
  C4. Every operation of the datapoint (\<open>set\<close>, \<open>process_group_write\<close>,
  \<open>process_group_read\<close>, \<open>broadcast_value\<close>) that transmits nothing leaves
  \<open>last_sent_value\<close> unchanged, and \<open>last_sent_value\<close> changes only in a step that
  transmits a value, to that value.
\<close>

theorem last_sent_value_only_when_transmitted:
  "(sent (dp_step A C op s) = sent s \<longrightarrow> last_sent_value (dp_step A C op s) = last_sent_value s)
   \<and> (last_sent_value (dp_step A C op s) \<noteq> last_sent_value s \<longrightarrow>
        (\<exists>v. sent (dp_step A C op s) = sent s @ [(v, False)]
            \<and> last_sent_value (dp_step A C op s) = Some v))"
proof (cases op)
  case (OpSet val)
  then show ?thesis using set_dp_last_sent[of A C val s] by auto
next
  case (OpGroupWrite tg)
  then show ?thesis by (simp add: process_group_write_last_sent)
next
  case (OpGroupRead tg)
  then show ?thesis by (simp add: process_group_read_def broadcast_value_last_sent log_dp_simps)
next
  case (OpBroadcast r)
  then show ?thesis by (simp add: broadcast_value_last_sent)
qed

text \<open>
  An operation that does not transmit (\<open>set(11)\<close> below the threshold) and one that
  does (\<open>set(12)\<close>).
\<close>

theorem last_sent_value_only_when_transmitted_witness:
  "sent (dp_step int_arith plain_codec (OpSet (Some (VNum 11)))
           (sensor_dp False (Some (VNum 2)) (Some (VNum 10)) (Some (VNum 10)))) = []
   \<and> last_sent_value (dp_step int_arith plain_codec (OpSet (Some (VNum 11)))
           (sensor_dp False (Some (VNum 2)) (Some (VNum 10)) (Some (VNum 10)))) = Some (VNum 10)
   \<and> last_sent_value (dp_step int_arith plain_codec (OpSet (Some (VNum 12)))
           (sensor_dp False (Some (VNum 2)) (Some (VNum 10)) (Some (VNum 10)))) = Some (VNum 12)
   \<and> sent (dp_step int_arith plain_codec (OpSet (Some (VNum 12)))
           (sensor_dp False (Some (VNum 2)) (Some (VNum 10)) (Some (VNum 10)))) = [(VNum 12, False)]"
  using last_sent_value_only_when_transmitted[of int_arith plain_codec "OpSet (Some (VNum 11))"
          "sensor_dp False (Some (VNum 2)) (Some (VNum 10)) (Some (VNum 10))"]
        last_sent_value_only_when_transmitted[of int_arith plain_codec "OpSet (Some (VNum 12))"
          "sensor_dp False (Some (VNum 2)) (Some (VNum 10)) (Some (VNum 10))"]
  by (simp add: sensor_dp_def plain_codec_byte int_arith_simps differs_def rv_value_def set_dp_def
        send_and_record_def cache_only_def cache_payload_def rv_set_def)

subsection \<open>process\_group\_write\<close>

text \<open>
  C3, as stated, fails: the warning is written only when the remote value accepts the
  telegram. A write telegram for another group address (\<open>process\<close> returns false) and
  one whose payload the value type rejects (\<open>process\<close> raises) reach a datapoint that
  is not writable and leave the first log line of \<open>process_group_write\<close>, no warning.
\<close>

theorem write_not_accepted_counterexample:
  "\<not> writable (sensor_dp False None None None)
   \<and> process_group_write plain_codec (write_to 8 21) (sensor_dp False None None None)
       = (None, (sensor_dp False None None None)
                  \<lparr>logged := [LogInfo ''HtDataPoint.process_group_write'']\<rparr>)
   \<and> process_group_write plain_codec (write_to 7 999) (sensor_dp False None None None)
       = (Some CouldNotParseTelegram, (sensor_dp False None None None)
                  \<lparr>logged := [LogInfo ''HtDataPoint.process_group_write'']\<rparr>)"
  by (simp add: sensor_dp_def plain_codec_byte write_to_def process_group_write_def
        rv_process_def log_dp_def)

text \<open>
  C3, amended. For every group-write telegram given to a datapoint that is not
  writable, \<open>last_sent_value\<close> is left unchanged and nothing is transmitted; the
  warning is logged exactly when the remote value accepts the telegram (its group
  address is the datapoint's and its payload is valid), after the first log line.
\<close>

theorem write_non_writable:
  assumes "\<not> writable s"
  shows "last_sent_value (snd (process_group_write C tg s)) = last_sent_value s
       \<and> sent (snd (process_group_write C tg s)) = sent s
       \<and> logged (snd (process_group_write C tg s)) =
           logged s @
           (if destination tg = group_address (param_value s) \<and> payload_valid C (tg_payload tg)
            then [LogInfo ''HtDataPoint.process_group_write'',
                  LogWarning ''Attempted to set value for non-writable heat pump parameter'']
            else [LogInfo ''HtDataPoint.process_group_write''])"
  using assms
  by (auto simp: process_group_write_def rv_process_def Let_def log_dp_def)

theorem write_non_writable_witness:
  "\<not> writable (sensor_dp False None None (Some (VNum 10)))
   \<and> last_sent_value (snd (process_group_write plain_codec (write_to 7 21)
        (sensor_dp False None None (Some (VNum 10))))) = Some (VNum 10)
   \<and> logged (snd (process_group_write plain_codec (write_to 7 21)
        (sensor_dp False None None (Some (VNum 10))))) =
        [LogInfo ''HtDataPoint.process_group_write'',
         LogWarning ''Attempted to set value for non-writable heat pump parameter'']"
  using write_non_writable[of "sensor_dp False None None (Some (VNum 10))" plain_codec "write_to 7 21"]
  by (simp add: sensor_dp_def plain_codec_byte write_to_def)

text \<open>
  C10. For a telegram that the remote value accepts, the payload of the telegram is
  cached by the decoding step, before the writability check: a datapoint that is not
  writable ends with the incoming payload cached (and the warning logged), a
  writable one with the re-encoded incoming value cached, or with the incoming
  payload still cached when the re-encoding raises (and the forwarding logged).
  Neither transmits.
\<close>

theorem write_caches_before_writable_check:
  assumes "destination tg = group_address (param_value s)"
    and "payload_valid C (tg_payload tg)"
  shows "(\<not> writable s \<longrightarrow>
            fst (process_group_write C tg s) = None
          \<and> payload (param_value (snd (process_group_write C tg s))) = Some (tg_payload tg)
          \<and> rv_value C (param_value (snd (process_group_write C tg s)))
              = Some (from_knx C (tg_payload tg))
          \<and> logged (snd (process_group_write C tg s)) =
              logged s @ [LogInfo ''HtDataPoint.process_group_write'',
                 LogWarning ''Attempted to set value for non-writable heat pump parameter''])
       \<and> (writable s \<longrightarrow>
            (case to_knx C (from_knx C (tg_payload tg)) of
               Inr q \<Rightarrow>
                 fst (process_group_write C tg s) = None
               \<and> payload (param_value (snd (process_group_write C tg s))) = Some q
             | Inl e \<Rightarrow>
                 fst (process_group_write C tg s) = Some e
               \<and> payload (param_value (snd (process_group_write C tg s)))
                   = Some (tg_payload tg))
          \<and> logged (snd (process_group_write C tg s)) =
              logged s @ [LogInfo ''HtDataPoint.process_group_write'',
                 LogInfo ''HtDataPoint.process_group_write: ht_heatpump.set_param_async''])
       \<and> sent (snd (process_group_write C tg s)) = sent s"
  using assms
  by (auto simp: process_group_write_def rv_process_def Let_def log_dp_def rv_value_def
        cache_payload_def split: sum.splits)

theorem write_caches_before_writable_check_witness:
  "rv_value plain_codec (param_value (sensor_dp False None (Some (VNum 10)) None)) = Some (VNum 10)
   \<and> rv_value plain_codec (param_value (snd (process_group_write plain_codec (write_to 7 21)
        (sensor_dp False None (Some (VNum 10)) None)))) = Some (VNum 21)
   \<and> rv_value plain_codec (param_value (snd (process_group_write plain_codec (write_to 7 21)
        (sensor_dp True None (Some (VNum 10)) None)))) = Some (VNum 21)"
  using write_caches_before_writable_check[of "write_to 7 21" "sensor_dp False None (Some (VNum 10)) None" plain_codec]
        write_caches_before_writable_check[of "write_to 7 21" "sensor_dp True None (Some (VNum 10)) None" plain_codec]
  by (simp add: sensor_dp_def plain_codec_byte write_to_def rv_value_def)

section \<open>Properties of the fault notification\<close>

subsection \<open>Exceptions of the queries\<close>

text \<open>
  An exception of the in-error query, of the comparison of the times or of the fetch
  of the last fault is caught and logged, and the tick ends with \<open>in_error\<close> and
  \<open>last_sent_at\<close> as they were.
\<close>

lemma do_try_raise_state: "do_try env s = (Some ex, s') \<Longrightarrow> s' = s"
  by (auto simp: do_try_def split: sum.splits if_splits option.splits prod.splits)

lemma do_try_raises_iff:
  "fst (do_try env s) = Some ex \<longleftrightarrow>
     in_error_async env = Inl ex
   \<or> (in_error_async env = Inr True \<and> announce_due s (now_check env) = Inl ex)
   \<or> (in_error_async env = Inr True \<and> announce_due s (now_check env) = Inr True
        \<and> get_last_fault_async env = Inl ex)"
  by (auto simp: do_try_def split: sum.splits if_splits option.splits prod.splits)

lemma do_tick_notified: "notified (do_tick env s) = notified s"
  by (auto simp: do_tick_def do_try_def split: sum.splits if_splits option.splits prod.splits)

lemma raised_exception_keeps_state:
  assumes "in_error_async env = Inl ex
         \<or> (in_error_async env = Inr True \<and> announce_due s (now_check env) = Inl ex)
         \<or> (in_error_async env = Inr True \<and> announce_due s (now_check env) = Inr True
              \<and> get_last_fault_async env = Inl ex)"
  shows "in_error (do_tick env s) = in_error s
       \<and> last_sent_at (do_tick env s) = last_sent_at s
       \<and> fn_logged (do_tick env s) = fn_logged s @ [ex]"
proof -
  have "fst (do_try env s) = Some ex"
    using assms by (simp only: do_try_raises_iff)
  then obtain s' where r: "do_try env s = (Some ex, s')"
    by (cases "do_try env s") auto
  then have "s' = s" by (rule do_try_raise_state)
  with r show ?thesis by (simp add: do_tick_def)
qed

subsection \<open>The announcement\<close>

lemma first_tick:
  "do_tick (fault_tick t msg) (HtFaultNotification_init ra) =
     \<lparr>repeat_after = ra, last_sent_at = Some t, in_error = True, notified = [], fn_logged = []\<rparr>"
  by (simp add: fault_tick_def HtFaultNotification_init_def do_tick_def do_try_def announce_due_def)

lemma repeat_tick:
  "d \<le> now - t \<Longrightarrow>
   do_tick (fault_tick now msg)
     \<lparr>repeat_after = Some d, last_sent_at = Some t, in_error = True, notified = ms, fn_logged = l\<rparr>
   = \<lparr>repeat_after = Some d, last_sent_at = Some now, in_error = True, notified = ms,
      fn_logged = l\<rparr>"
  by (simp add: fault_tick_def do_tick_def do_try_def announce_due_def)

text \<open>
  C5. The claim: a tick at least \<open>repeat_after\<close> after \<open>last_sent_at\<close> emits the
  notification again. The code does not: a new notification with \<open>repeat_after\<close> of
  one hour, ticked at 0 and two hours later with the heat pump in error, sets
  \<open>last_sent_at\<close> both times and has sent no message, since \<open>self.set(msg)\<close> is not
  awaited. The tick of the specification sends the message twice.
\<close>

theorem tick_never_emits:
  "ticks [fault_tick 0 ''E20'', fault_tick 7200000000 ''E20'']
      (HtFaultNotification_init (Some 3600000000))
     = \<lparr>repeat_after = Some 3600000000, last_sent_at = Some 7200000000, in_error = True,
        notified = [], fn_logged = []\<rparr>
   \<and> spec_do_tick (fault_tick 7200000000 ''E20'')
       (spec_do_tick (fault_tick 0 ''E20'') (HtFaultNotification_init (Some 3600000000)))
     = \<lparr>repeat_after = Some 3600000000, last_sent_at = Some 7200000000, in_error = True,
        notified = [''E20'', ''E20''], fn_logged = []\<rparr>"
proof (rule conjI)
  show "ticks [fault_tick 0 ''E20'', fault_tick 7200000000 ''E20'']
      (HtFaultNotification_init (Some 3600000000))
     = \<lparr>repeat_after = Some 3600000000, last_sent_at = Some 7200000000, in_error = True,
        notified = [], fn_logged = []\<rparr>"
    by (simp add: first_tick repeat_tick)
  show "spec_do_tick (fault_tick 7200000000 ''E20'')
       (spec_do_tick (fault_tick 0 ''E20'') (HtFaultNotification_init (Some 3600000000)))
     = \<lparr>repeat_after = Some 3600000000, last_sent_at = Some 7200000000, in_error = True,
        notified = [''E20'', ''E20''], fn_logged = []\<rparr>"
    by (simp add: fault_tick_def HtFaultNotification_init_def spec_do_tick_def spec_do_try_def
          announce_due_def notification_set_def)
qed


subsection \<open>The invariant of in\_error\<close>

lemma do_tick_inv:
  "(in_error s \<longrightarrow> last_sent_at s \<noteq> None) \<Longrightarrow>
   (in_error (do_tick env s) \<longrightarrow> last_sent_at (do_tick env s) \<noteq> None)"
  by (auto simp: do_tick_def do_try_def split: sum.splits if_splits option.splits prod.splits)

lemma ticks_inv:
  "(in_error s \<longrightarrow> last_sent_at s \<noteq> None) \<Longrightarrow>
   (in_error (ticks envs s) \<longrightarrow> last_sent_at (ticks envs s) \<noteq> None)"
proof (induction envs arbitrary: s)
  case Nil
  then show ?case by simp
next
  case (Cons env envs)
  from Cons.prems have "in_error (do_tick env s) \<longrightarrow> last_sent_at (do_tick env s) \<noteq> None"
    by (rule do_tick_inv)
  then show ?case using Cons.IH[of "do_tick env s"] by simp
qed

text \<open>
  C9. A new notification is not in error; a tick preserves "in error implies
  \<open>last_sent_at\<close> is set"; so after any number of ticks from the constructor a
  notification in error has its \<open>last_sent_at\<close>, and the comparison of the times
  never raises the \<open>TypeError\<close> of a missing timestamp.
\<close>

theorem in_error_has_timestamp:
  "\<not> in_error (HtFaultNotification_init ra)
   \<and> ((in_error s \<longrightarrow> last_sent_at s \<noteq> None) \<longrightarrow>
        (in_error (do_tick env s) \<longrightarrow> last_sent_at (do_tick env s) \<noteq> None))
   \<and> (in_error (ticks envs (HtFaultNotification_init ra)) \<longrightarrow>
        last_sent_at (ticks envs (HtFaultNotification_init ra)) \<noteq> None)
   \<and> announce_due (ticks envs (HtFaultNotification_init ra)) now \<noteq> Inl TypeError"
proof -
  have i: "in_error (HtFaultNotification_init ra) \<longrightarrow>
             last_sent_at (HtFaultNotification_init ra) \<noteq> None"
    by (simp add: HtFaultNotification_init_def)
  have r: "in_error (ticks envs (HtFaultNotification_init ra)) \<longrightarrow>
        last_sent_at (ticks envs (HtFaultNotification_init ra)) \<noteq> None"
    using i by (rule ticks_inv)
  have a: "announce_due (ticks envs (HtFaultNotification_init ra)) now \<noteq> Inl TypeError"
    using r by (auto simp: announce_due_def split: option.splits)
  show ?thesis using r a do_tick_inv[of s env]
    by (simp add: HtFaultNotification_init_def)
qed

text \<open>One fault announced at 0, then a tick two hours later.\<close>

theorem in_error_has_timestamp_witness:
  "in_error (ticks [fault_tick 0 ''E20''] (HtFaultNotification_init (Some 3600000000)))
   \<and> last_sent_at (ticks [fault_tick 0 ''E20''] (HtFaultNotification_init (Some 3600000000))) = Some 0
   \<and> in_error (do_tick (fault_tick 7200000000 ''E20'')
        (ticks [fault_tick 0 ''E20''] (HtFaultNotification_init (Some 3600000000))))
   \<and> last_sent_at (do_tick (fault_tick 7200000000 ''E20'')
        (ticks [fault_tick 0 ''E20''] (HtFaultNotification_init (Some 3600000000)))) = Some 7200000000
   \<and> announce_due (ticks [fault_tick 0 ''E20''] (HtFaultNotification_init (Some 3600000000)))
        7200000000 = Inr True"
  using in_error_has_timestamp[of "Some 3600000000"
          "ticks [fault_tick 0 ''E20''] (HtFaultNotification_init (Some 3600000000))"
          "fault_tick 7200000000 ''E20''" "[fault_tick 0 ''E20'']" 7200000000]
  by (simp add: first_tick repeat_tick announce_due_def)

section \<open>Properties of the validators\<close>

subsection \<open>Digit strings and splitting\<close>

lemma py_digits_all:
  "list_all is_digit ds \<Longrightarrow> ds \<noteq> [] \<Longrightarrow>
     py_digits acc b ds = Some (foldl (\<lambda>a c. 10 * a + digit_val c) acc ds)"
proof (induction ds arbitrary: acc b)
  case Nil
  then show ?case by simp
next
  case (Cons c cs)
  then show ?case by (cases "cs = []") simp_all
qed

lemma digit_not_space: "is_digit c \<Longrightarrow> \<not> py_int_isspace c"
  by (auto simp: is_digit_def py_int_isspace_def)

lemma digit_not_sign: "is_digit c \<Longrightarrow> c \<noteq> CHR ''-'' \<and> c \<noteq> CHR ''+'' \<and> c \<noteq> CHR '':''"
  by (auto simp: is_digit_def)

lemma py_int_strip_digits: "list_all is_digit ds \<Longrightarrow> py_int_strip ds = ds"
proof -
  assume a: "list_all is_digit ds"
  have 1: "dropWhile py_int_isspace ds = ds"
    using a digit_not_space by (cases ds) auto
  have "list_all is_digit (rev ds)" using a by (simp add: list_all_iff)
  then have 2: "dropWhile py_int_isspace (rev ds) = rev ds"
    using digit_not_space by (cases "rev ds") auto
  show ?thesis by (simp add: py_int_strip_def 1 2)
qed

lemma filter_digits: "list_all is_digit ds \<Longrightarrow> filter is_digit ds = ds"
  by (induction ds) auto

lemma py_int_digits:
  assumes "all_digits ds" and "maxd = 0 \<or> length ds \<le> maxd"
  shows "py_int maxd ds = Some (decimal ds)"
proof -
  obtain c cs where ds: "ds = c # cs" using assms(1) by (cases ds) (auto simp: all_digits_def)
  have d: "is_digit c" using assms(1) ds by (simp add: all_digits_def)
  have l: "list_all is_digit ds" using assms(1) by (simp add: all_digits_def)
  have p: "py_digits 0 False ds = Some (decimal ds)"
    using assms(1) py_digits_all[of ds 0 False] by (simp add: all_digits_def decimal_def)
  have f: "length (filter is_digit (c # cs)) = length ds"
    using filter_digits[OF l] ds by simp
  have n: "\<not> (0 < maxd \<and> maxd < length (filter is_digit (c # cs)))"
    using assms(2) f by auto
  show ?thesis
    using p n digit_not_sign[OF d] py_int_strip_digits[OF l] ds
    by (simp add: py_int_def del: py_digits.simps filter.simps)
qed

lemma py_split_single: "sep \<notin> set a \<Longrightarrow> py_split sep a = [a]"
  by (induction a) auto

lemma py_split_append: "sep \<notin> set a \<Longrightarrow> py_split sep (a @ sep # rest) = a # py_split sep rest"
  by (induction a) (auto split: list.splits)

lemma digits_no_colon: "all_digits ds \<Longrightarrow> CHR '':'' \<notin> set ds"
  using digit_not_sign by (auto simp: all_digits_def list_all_iff)

lemma strip_sign_cases:
  "all_digits hh \<Longrightarrow> sg \<in> set ['''', ''+'', ''-''] \<Longrightarrow>
     strip_sign (sg @ hh @ r) = hh @ r \<and> (take 1 (sg @ hh @ r) = ''-'') = (sg = ''-'')"
  using digit_not_sign by (cases hh) (auto simp: strip_sign_def all_digits_def)

lemma range_ok:
  "\<bar>t\<bar> \<le> 999999999 * us_per_day \<Longrightarrow>
     timedelta_range t = Inr t \<and> timedelta_range (t * (-1)) = Inr (- t)"
  unfolding timedelta_range_def us_per_day_def
  by auto

lemma time_period_str_two_fields:
  assumes "all_digits hh" "all_digits mm" "sg \<in> set ['''', ''+'', ''-'']"
    and "maxd = 0 \<or> (length hh \<le> maxd \<and> length mm \<le> maxd)"
    and "\<bar>decimal hh * 3600000000 + decimal mm * 60000000\<bar> \<le> 999999999 * us_per_day"
  shows "time_period_str fl maxd (PyStr (sg @ hh @ '':'' @ mm)) =
     Inr (if sg = ''-'' then - (decimal hh * 3600000000 + decimal mm * 60000000)
          else decimal hh * 3600000000 + decimal mm * 60000000)"
proof -
  have sp: "py_split CHR '':'' (hh @ '':'' @ mm) = [hh, mm]"
    using py_split_append[OF digits_no_colon[OF assms(1)], of mm]
          py_split_single[OF digits_no_colon[OF assms(2)]] by simp
  have h: "py_int maxd hh = Some (decimal hh)"
    using assms(4) by (intro py_int_digits[OF assms(1)]) auto
  have m: "py_int maxd mm = Some (decimal mm)"
    using assms(4) by (intro py_int_digits[OF assms(2)]) auto
  show ?thesis
    using strip_sign_cases[OF assms(1) assms(3), of "'':'' @ mm"] sp h m range_ok[OF assms(5)]
    by (simp add: time_period_str_def timedelta_def)
qed

lemma time_period_str_three_fields:
  assumes "all_digits hh" "all_digits mm" "sg \<in> set ['''', ''+'', ''-'']"
    and "maxd = 0 \<or> (length hh \<le> maxd \<and> length mm \<le> maxd)"
    and "CHR '':'' \<notin> set ss" "fl ss = FloatMicros u"
    and "\<bar>decimal hh * 3600000000 + decimal mm * 60000000 + u\<bar> \<le> 999999999 * us_per_day"
  shows "time_period_str fl maxd (PyStr (sg @ hh @ '':'' @ mm @ '':'' @ ss)) =
     Inr (if sg = ''-'' then - (decimal hh * 3600000000 + decimal mm * 60000000 + u)
          else decimal hh * 3600000000 + decimal mm * 60000000 + u)"
proof -
  have sp: "py_split CHR '':'' (hh @ '':'' @ mm @ '':'' @ ss) = [hh, mm, ss]"
    using py_split_append[OF digits_no_colon[OF assms(1)], of "mm @ '':'' @ ss"]
          py_split_append[OF digits_no_colon[OF assms(2)], of ss]
          py_split_single[OF assms(5)] by simp
  have h: "py_int maxd hh = Some (decimal hh)"
    using assms(4) by (intro py_int_digits[OF assms(1)]) auto
  have m: "py_int maxd mm = Some (decimal mm)"
    using assms(4) by (intro py_int_digits[OF assms(2)]) auto
  show ?thesis
    using strip_sign_cases[OF assms(1) assms(3), of "'':'' @ mm @ '':'' @ ss"] sp h m
      range_ok[OF assms(7)] assms(6)
    by (simp add: time_period_str_def timedelta_def)
qed

lemma time_period_str_rejects:
  "length (py_split CHR '':'' (strip_sign s)) \<noteq> 2 \<and> length (py_split CHR '':'' (strip_sign s)) \<noteq> 3
   \<or> py_int maxd (py_split CHR '':'' (strip_sign s) ! 0) = None
   \<or> py_int maxd (py_split CHR '':'' (strip_sign s) ! 1) = None
   \<or> (length (py_split CHR '':'' (strip_sign s)) = 3 \<and> fl (py_split CHR '':'' (strip_sign s) ! 2) = FloatValueError)
  \<Longrightarrow> time_period_str fl maxd (PyStr s) = Inl (Invalid TIME_PERIOD_ERROR)"
  by (auto simp: time_period_str_def Let_def split: option.splits)

subsection \<open>time\_period\_str\<close>

text \<open>
  C7, as stated, fails in its last sentence: the fields are read by \<open>int\<close>, which also
  takes a sign, so \<open>--1:30\<close> is not of the form \<open>[-+]HH:MM[:SS[.f]]\<close> and still
  yields a duration, plus 30 minutes, with or without a limit on the digits.
\<close>

theorem time_period_str_lenient_counterexample:
  "\<not> spec_duration_form ''--1:30''
   \<and> time_period_str no_seconds 0 (PyStr ''--1:30'') = Inr 1800000000
   \<and> time_period_str no_seconds 4300 (PyStr ''--1:30'') = Inr 1800000000"
  by code_simp

text \<open>
  C7, amended. For digit strings \<open>hh\<close> and \<open>mm\<close> within the interpreter's limit on
  digits, an optional sign \<open>+\<close> or \<open>-\<close> and, if present, a seconds field that
  \<open>float\<close> reads as a finite number of \<open>u\<close> microseconds, the result is the signed
  sum of hours, minutes and seconds, negated as a whole by a leading \<open>-\<close>, as long
  as the sum stays in the range of a \<open>timedelta\<close>. A bare integer is invalid, and so
  is every ASCII string that does not split at the colons into two or three fields,
  or whose hour or minute field \<open>int\<close> rejects, or whose seconds field \<open>float\<close>
  rejects.
\<close>

theorem time_period_str_signed_sum:
  "(all_digits hh \<and> all_digits mm \<and> sg \<in> set ['''', ''+'', ''-'']
      \<and> (maxd = 0 \<or> (length hh \<le> maxd \<and> length mm \<le> maxd))
      \<and> \<bar>decimal hh * 3600000000 + decimal mm * 60000000\<bar> \<le> 999999999 * us_per_day \<longrightarrow>
      time_period_str fl maxd (PyStr (sg @ hh @ '':'' @ mm)) =
        Inr (if sg = ''-'' then - (decimal hh * 3600000000 + decimal mm * 60000000)
             else decimal hh * 3600000000 + decimal mm * 60000000))
   \<and> (all_digits hh \<and> all_digits mm \<and> sg \<in> set ['''', ''+'', ''-'']
      \<and> (maxd = 0 \<or> (length hh \<le> maxd \<and> length mm \<le> maxd))
      \<and> CHR '':'' \<notin> set ss \<and> fl ss = FloatMicros u
      \<and> \<bar>decimal hh * 3600000000 + decimal mm * 60000000 + u\<bar> \<le> 999999999 * us_per_day \<longrightarrow>
      time_period_str fl maxd (PyStr (sg @ hh @ '':'' @ mm @ '':'' @ ss)) =
        Inr (if sg = ''-'' then - (decimal hh * 3600000000 + decimal mm * 60000000 + u)
             else decimal hh * 3600000000 + decimal mm * 60000000 + u))
   \<and> time_period_str fl maxd (PyInt n) = Inl (Invalid ''make sure you wrap time values in quotes'')
   \<and> (is_ascii s
       \<and> ((length (py_split CHR '':'' (strip_sign s)) \<noteq> 2
             \<and> length (py_split CHR '':'' (strip_sign s)) \<noteq> 3)
           \<or> py_int maxd (py_split CHR '':'' (strip_sign s) ! 0) = None
           \<or> py_int maxd (py_split CHR '':'' (strip_sign s) ! 1) = None
           \<or> (length (py_split CHR '':'' (strip_sign s)) = 3
               \<and> fl (py_split CHR '':'' (strip_sign s) ! 2) = FloatValueError)) \<longrightarrow>
       time_period_str fl maxd (PyStr s) = Inl (Invalid TIME_PERIOD_ERROR))"
  using time_period_str_two_fields[of hh mm sg maxd fl]
        time_period_str_three_fields[of hh mm sg maxd ss fl u]
        time_period_str_rejects[of s maxd fl]
  by (simp add: time_period_str_def)

lemma duration_fields_eval:
  "all_digits ''1'' \<and> all_digits ''30'' \<and> decimal ''1'' = 1 \<and> decimal ''30'' = 30
   \<and> whole_seconds ''00'' = FloatMicros 0"
  by code_simp

lemma duration_split_eval:
  "is_ascii ''1:xx'' \<and> py_split CHR '':'' (strip_sign ''1:xx'') = [''1'', ''xx'']
   \<and> py_int 4300 ''xx'' = None"
  by code_simp

text \<open>\<open>-1:30:00\<close> is minus 90 minutes; \<open>1:xx\<close> is invalid.\<close>

theorem time_period_str_signed_sum_witness:
  "time_period_str whole_seconds 4300 (PyStr ''-1:30:00'') = Inr (- 5400000000)
   \<and> time_period_str whole_seconds 4300 (PyStr ''+1:30'') = Inr 5400000000
   \<and> time_period_str whole_seconds 4300 (PyStr ''1:xx'') = Inl (Invalid TIME_PERIOD_ERROR)"
  using time_period_str_signed_sum[of "''1''" "''30''" "''-''" 4300 whole_seconds "''00''" 0 0 "''1:xx''"]
        time_period_str_signed_sum[of "''1''" "''30''" "''+''" 4300 whole_seconds "''00''" 0 0 "''1:xx''"]
        duration_fields_eval duration_split_eval
  by (simp add: us_per_day_def)

text \<open>
  The whitespace of \<open>int\<close> against that of \<open>strip\<close>: the separator 31 before a digit
  is rejected by \<open>int\<close> and removed by \<open>strip\<close>; the tabulator 11 is taken by both.
\<close>

lemma int_whitespace_eval:
  "py_int 0 [CHR 0x1F, CHR ''1''] = None \<and> py_int 0 [CHR 0x0B, CHR ''1''] = Some 1
   \<and> py_strip [CHR 0x1F, CHR ''1''] = ''1''
   \<and> time_period_str no_seconds 0 (PyStr ([CHR 0x1F] @ ''1:30'')) = Inl (Invalid TIME_PERIOD_ERROR)"
  by code_simp

subsection \<open>boolean\<close>

lemma py_strip_token: "s \<in> set [''1'', ''true'', ''yes'', ''on'', ''enable'', ''0'', ''false'', ''no'', ''off'', ''disable''] \<Longrightarrow> py_strip s = s"
  by (auto simp: py_strip_def py_isspace_def)

text \<open>
  C8. \<open>boolean\<close> maps every spelling, in upper or lower case, of \<open>1\<close>, \<open>true\<close>, \<open>yes\<close>,
  \<open>on\<close>, \<open>enable\<close> to true and of \<open>0\<close>, \<open>false\<close>, \<open>no\<close>, \<open>off\<close>, \<open>disable\<close> to
  false; two strings that differ in case only have the same result; a number is
  true exactly when it is not zero; and \<open>boolean\<close> is idempotent: where
  \<open>boolean(x)\<close> succeeds, \<open>boolean(boolean(x)) = boolean(x)\<close>.
\<close>

theorem boolean_case_insensitive_idempotent:
  "(py_lower s \<in> set [''1'', ''true'', ''yes'', ''on'', ''enable''] \<longrightarrow> boolean (PyStr s) = Inr True)
 \<and> (py_lower s \<in> set [''0'', ''false'', ''no'', ''off'', ''disable''] \<longrightarrow> boolean (PyStr s) = Inr False)
 \<and> (py_lower s = py_lower t \<longrightarrow> boolean (PyStr s) = boolean (PyStr t))
 \<and> boolean (PyInt n) = Inr (n \<noteq> 0)
 \<and> boolean (PyFloat q) = Inr (q \<noteq> 0)
 \<and> (boolean x = Inr b \<longrightarrow> boolean (PyBool b) = boolean x)"
proof -
  have a: "py_lower s \<in> set [''1'', ''true'', ''yes'', ''on'', ''enable''] \<Longrightarrow> boolean (PyStr s) = Inr True"
    using py_strip_token[of "py_lower s"] by auto
  have b: "py_lower s \<in> set [''0'', ''false'', ''no'', ''off'', ''disable''] \<Longrightarrow> boolean (PyStr s) = Inr False"
    using py_strip_token[of "py_lower s"] by auto
  show ?thesis using a b by simp
qed

lemma py_lower_eval: "py_lower ''TrUe'' = ''true'' \<and> py_lower ''OFF'' = ''off'' \<and> py_lower ''Off'' = ''off''"
  by code_simp

text \<open>Mixed case, a number, and the coercion applied twice.\<close>

theorem boolean_case_insensitive_idempotent_witness:
  "boolean (PyStr ''TrUe'') = Inr True
   \<and> boolean (PyStr ''OFF'') = Inr False
   \<and> boolean (PyStr ''OFF'') = boolean (PyStr ''Off'')
   \<and> boolean (PyInt 5) = Inr True
   \<and> boolean (PyBool True) = boolean (PyInt 5)"
  using boolean_case_insensitive_idempotent[of "''TrUe''" "''true''" 5 0 "PyInt 5" True]
        boolean_case_insensitive_idempotent[of "''OFF''" "''Off''" 5 0 "PyInt 5" True]
  by (auto simp del: boolean.simps simp add: py_lower_eval)

end
